theory Spec2Isabelle
  imports Main "HOL-Library.Sublist"
begin

section \<open>JavaScript strings\<close>

text \<open>
  The handler in \<^verbatim>\<open>server/api/proxy/[...path].ts\<close> is one long function over
  strings. A JavaScript string is modelled by the list of the bytes of its UTF-8
  encoding, so the ASCII literals of the source are the same literals here and
  percent-encoding works on the bytes it really encodes.
\<close>

definition startsWith :: "string \<Rightarrow> string \<Rightarrow> bool" where
  "startsWith s p = prefix p s"


text \<open>\<^verbatim>\<open>s.includes(p)\<close>: \<open>p\<close> occurs in \<open>s\<close> at some position.\<close>

fun includesStr :: "string \<Rightarrow> string \<Rightarrow> bool" where
  "includesStr [] p = (p = [])"
| "includesStr (c # cs) p = (prefix p (c # cs) \<or> includesStr cs p)"

text \<open>\<^verbatim>\<open>s.split(sep)\<close> for a one-character separator; \<^verbatim>\<open>"".split(",")\<close> is \<^verbatim>\<open>[""]\<close>.\<close>

fun split :: "char \<Rightarrow> string \<Rightarrow> string list" where
  "split sep [] = [[]]"
| "split sep (c # cs) =
     (if c = sep then [] # split sep cs
      else (case split sep cs of
              [] \<Rightarrow> [[c]]
            | x # xs \<Rightarrow> (c # x) # xs))"

text \<open>\<^verbatim>\<open>parts.join(sep)\<close>.\<close>

fun join :: "string \<Rightarrow> string list \<Rightarrow> string" where
  "join sep [] = []"
| "join sep [x] = x"
| "join sep (x # y # ys) = x @ sep @ join sep (y # ys)"

text \<open>
  \<^verbatim>\<open>s.replace(pat, rep)\<close> with a string pattern: only the first occurrence is
  replaced. None of the replacement strings of the source contains \<^verbatim>\<open>$\<close>.
\<close>

fun replaceFirst :: "string \<Rightarrow> string \<Rightarrow> string \<Rightarrow> string" where
  "replaceFirst pat rep [] = (if pat = [] then rep else [])"
| "replaceFirst pat rep (c # cs) =
     (if prefix pat (c # cs) then rep @ drop (length pat) (c # cs)
      else c # replaceFirst pat rep cs)"

text \<open>\<^verbatim>\<open>s.replace(/^http/, "ws")\<close>: the pattern is anchored at the start.\<close>

definition replaceHttpWs :: "string \<Rightarrow> string" where
  "replaceHttpWs s = (if startsWith s ''http'' then ''ws'' @ drop 4 s else s)"

text \<open>
  \<^verbatim>\<open>s.replace(/([^:]\/)\/+/g, "$1")\<close>: scanning from the left, a character other
  than a colon followed by two or more slashes keeps the character and one slash;
  the scan goes on after the run of slashes.
\<close>

function collapseSlashes :: "string \<Rightarrow> string" where
  "collapseSlashes [] = []"
| "collapseSlashes [a] = [a]"
| "collapseSlashes [a, b] = [a, b]"
| "collapseSlashes (a # b # c # rest) =
     (if a \<noteq> CHR '':'' \<and> b = CHR ''/'' \<and> c = CHR ''/''
      then a # CHR ''/'' # collapseSlashes (dropWhile (\<lambda>x. x = CHR ''/'') rest)
      else a # collapseSlashes (b # c # rest))"
  by pat_completeness auto
termination
  by (relation "measure length") (auto simp: length_dropWhile_le less_Suc_eq_le le_SucI)

text \<open>
  \<^verbatim>\<open>s.toLowerCase()\<close> on the letters A to Z. Header names and values reach the
  handler as Latin-1 text and are only compared with ASCII literals, which no
  other character lowers to.
\<close>

definition lowerChar :: "char \<Rightarrow> char" where
  "lowerChar c =
     (let n = of_char c :: nat in if 65 \<le> n \<and> n \<le> 90 then char_of (n + 32) else c)"

definition toLowerCase :: "string \<Rightarrow> string" where
  "toLowerCase s = map lowerChar s"

text \<open>
  \<^verbatim>\<open>s.trim()\<close> removes white space and line terminators from both ends; the
  code points are listed by their UTF-8 bytes.
\<close>

definition whiteSpace :: "string list" where
  "whiteSpace =
     [[CHR 0x09], [CHR 0x0A], [CHR 0x0B], [CHR 0x0C], [CHR 0x0D], [CHR 0x20],
      [CHR 0xC2, CHR 0xA0], [CHR 0xE1, CHR 0x9A, CHR 0x80],
      [CHR 0xE2, CHR 0x80, CHR 0x80], [CHR 0xE2, CHR 0x80, CHR 0x81],
      [CHR 0xE2, CHR 0x80, CHR 0x82], [CHR 0xE2, CHR 0x80, CHR 0x83],
      [CHR 0xE2, CHR 0x80, CHR 0x84], [CHR 0xE2, CHR 0x80, CHR 0x85],
      [CHR 0xE2, CHR 0x80, CHR 0x86], [CHR 0xE2, CHR 0x80, CHR 0x87],
      [CHR 0xE2, CHR 0x80, CHR 0x88], [CHR 0xE2, CHR 0x80, CHR 0x89],
      [CHR 0xE2, CHR 0x80, CHR 0x8A], [CHR 0xE2, CHR 0x80, CHR 0xA8],
      [CHR 0xE2, CHR 0x80, CHR 0xA9], [CHR 0xE2, CHR 0x80, CHR 0xAF],
      [CHR 0xE2, CHR 0x81, CHR 0x9F], [CHR 0xE3, CHR 0x80, CHR 0x80],
      [CHR 0xEF, CHR 0xBB, CHR 0xBF]]"

function trimStart :: "string \<Rightarrow> string" where
  "trimStart s =
     (case find (\<lambda>w. prefix w s) whiteSpace of
        None \<Rightarrow> s
      | Some w \<Rightarrow> if w = [] then s else trimStart (drop (length w) s))"
  by pat_completeness auto
termination
proof (relation "measure length", simp, goal_cases)
  case (1 s w)
  then have "prefix w s" "w \<noteq> []"
    by (auto simp: find_Some_iff)
  then show ?case
    by (cases s) (auto simp: prefix_def)
qed

function trimEnd :: "string \<Rightarrow> string" where
  "trimEnd s =
     (case find (\<lambda>w. suffix w s) whiteSpace of
        None \<Rightarrow> s
      | Some w \<Rightarrow> if w = [] then s else trimEnd (take (length s - length w) s))"
  by pat_completeness auto
termination
proof (relation "measure length", simp, goal_cases)
  case (1 s w)
  then have "suffix w s" "w \<noteq> []"
    by (auto simp: find_Some_iff)
  then show ?case
    by (cases s) (auto simp: suffix_def)
qed

declare trimStart.simps [simp del] trimEnd.simps [simp del]

definition trim :: "string \<Rightarrow> string" where
  "trim s = trimEnd (trimStart s)"

subsection \<open>Percent-encoding\<close>

definition isAlnum :: "char \<Rightarrow> bool" where
  "isAlnum c =
     (let n = of_char c :: nat
      in (48 \<le> n \<and> n \<le> 57) \<or> (65 \<le> n \<and> n \<le> 90) \<or> (97 \<le> n \<and> n \<le> 122))"

definition hexDigit :: "nat \<Rightarrow> char" where
  "hexDigit n = ''0123456789ABCDEF'' ! n"

definition pctByte :: "char \<Rightarrow> string" where
  "pctByte c =
     (let n = of_char c :: nat in [CHR ''%'', hexDigit (n div 16), hexDigit (n mod 16)])"

text \<open>
  \<^verbatim>\<open>encodeURIComponent(s)\<close>: letters, digits and \<^verbatim>\<open>-_.!~*'()\<close> stay, every other
  byte of the UTF-8 encoding becomes \<^verbatim>\<open>%XX\<close>. It throws only on a lone surrogate,
  which a UTF-8 byte string cannot hold.
\<close>

definition uriUnreserved :: "char \<Rightarrow> bool" where
  "uriUnreserved c = (isAlnum c \<or> c \<in> set ''-_.!~*'' \<or> c = CHR 0x27 \<or> c \<in> set ''()'')"

definition encodeURIComponent :: "string \<Rightarrow> string" where
  "encodeURIComponent s = concat (map (\<lambda>c. if uriUnreserved c then [c] else pctByte c) s)"

text \<open>
  The serialiser of \<^verbatim>\<open>URLSearchParams\<close> (application/x-www-form-urlencoded):
  letters, digits and \<^verbatim>\<open>*-._\<close> stay, a space becomes \<^verbatim>\<open>+\<close>, every other byte
  becomes \<^verbatim>\<open>%XX\<close>; pairs are written \<^verbatim>\<open>name=value\<close> and joined by \<^verbatim>\<open>&\<close>.
\<close>

definition formByte :: "char \<Rightarrow> string" where
  "formByte c =
     (if isAlnum c \<or> c \<in> set ''*-._'' then [c]
      else if c = CHR '' '' then ''+''
      else pctByte c)"

definition formEncode :: "string \<Rightarrow> string" where
  "formEncode s = concat (map formByte s)"

definition searchParamsToString :: "(string \<times> string) list \<Rightarrow> string" where
  "searchParamsToString kvs =
     join ''&'' (map (\<lambda>(k, v). formEncode k @ ''='' @ formEncode v) kvs)"

section \<open>Values, configuration, request and reply\<close>

text \<open>
  A JavaScript value as the handler sees it: a parsed JSON document, or
  \<^verbatim>\<open>undefined\<close>. An object is the list of its properties in enumeration order.
  Only integral numbers occur in what the handler itself builds.
\<close>

datatype jsval =
    JUndefined
  | JNull
  | JBool bool
  | JNum int
  | JStr string
  | JArr "jsval list"
  | JObj "(string \<times> jsval) list"

fun truthy :: "jsval \<Rightarrow> bool" where
  "truthy JUndefined = False"
| "truthy JNull = False"
| "truthy (JBool b) = b"
| "truthy (JNum n) = (n \<noteq> 0)"
| "truthy (JStr s) = (s \<noteq> [])"
| "truthy (JArr xs) = True"
| "truthy (JObj kvs) = True"

text \<open>\<^verbatim>\<open>v.name\<close> on a value that is neither \<^verbatim>\<open>null\<close> nor \<^verbatim>\<open>undefined\<close>.\<close>

fun getProp :: "jsval \<Rightarrow> string \<Rightarrow> jsval" where
  "getProp (JObj kvs) k = (case map_of kvs k of None \<Rightarrow> JUndefined | Some v \<Rightarrow> v)"
| "getProp v k = JUndefined"

text \<open>
  \<^verbatim>\<open>getQuery(event)\<close> gives each key a string, or a list of strings when the key
  is repeated. The query is the list of its entries in enumeration order.
\<close>

datatype qval = QStr string | QList "string list"

type_synonym query = "(string \<times> qval) list"

text \<open>\<^verbatim>\<open>if (query.key)\<close>: a missing key and the empty string are falsy, a list is truthy.\<close>

definition qTruthy :: "qval option \<Rightarrow> bool" where
  "qTruthy v = (case v of None \<Rightarrow> False | Some (QStr s) \<Rightarrow> s \<noteq> [] | Some (QList xs) \<Rightarrow> True)"

text \<open>The string a query value turns into in a template or in \<^verbatim>\<open>URLSearchParams\<close>.\<close>

definition qString :: "qval \<Rightarrow> string" where
  "qString v = (case v of QStr s \<Rightarrow> s | QList xs \<Rightarrow> join '','' xs)"

text \<open>\<^verbatim>\<open>value.includes(",")\<close>: a substring test on a string, a membership test on a list.\<close>

definition qIncludesComma :: "qval \<Rightarrow> bool" where
  "qIncludesComma v = (case v of QStr s \<Rightarrow> includesStr s '','' | QList xs \<Rightarrow> '','' \<in> set xs)"

text \<open>The five base URLs and \<^verbatim>\<open>NODE_ENV\<close>, read from the process environment.\<close>

record config =
  API_BASE_URL :: string
  GROUP_API_BASE_URL :: string
  NOTIFICATION_API_BASE_URL :: string
  FILE_SERVICE_BASE_URL :: string
  PRESENCE_SERVICE_BASE_URL :: string
  NODE_ENV :: "string option"

text \<open>The fallbacks of the source, used when the environment sets nothing.\<close>

definition defaultConfig :: config where
  "defaultConfig =
     \<lparr> API_BASE_URL = ''http://localhost:8081/api'',
       GROUP_API_BASE_URL = ''http://localhost:8082/api'',
       NOTIFICATION_API_BASE_URL = ''http://localhost:8083/api'',
       FILE_SERVICE_BASE_URL = ''http://localhost:8084'',
       PRESENCE_SERVICE_BASE_URL = ''http://localhost:8085/api'',
       NODE_ENV = None \<rparr>"

text \<open>A thrown error: what the outer \<^verbatim>\<open>catch\<close> reads of it.\<close>

datatype exn = Exn (message: string) (stack: string)

type_synonym headers = "(string \<times> string) list"

text \<open>
  The inbound request: method, \<^verbatim>\<open>params.path\<close> as an array, the query, the
  headers as Node gives them (lower-case names), and what \<^verbatim>\<open>readBody(event)\<close>
  gives when it is called (\<open>Inl\<close> when it throws).
\<close>

record request =
  getMethod :: string
  pathArray :: "string list"
  getQuery :: query
  getRequestHeaders :: headers
  readBody :: "exn + jsval"

text \<open>The options of the outbound \<^verbatim>\<open>fetch\<close>; \<open>body\<close> is the value that is serialised.\<close>

record fetchOptions =
  optMethod :: string
  optHeaders :: headers
  credentials :: string
  optBody :: "jsval option"

text \<open>
  The backend response: status line, the entries of its headers (lower-case
  names), and what \<^verbatim>\<open>json()\<close>, \<^verbatim>\<open>text()\<close> and \<^verbatim>\<open>arrayBuffer()\<close> give
  (\<open>None\<close> or \<open>Inl\<close> when they reject).
\<close>

record response =
  status :: nat
  statusText :: string
  respHeaders :: headers
  jsonResult :: "jsval option"
  textResult :: "string option"
  arrayBufferResult :: "exn + string"

definition ok :: "response \<Rightarrow> bool" where
  "ok r = (200 \<le> status r \<and> status r \<le> 299)"

text \<open>
  What the handler takes from its runtime: \<open>newURL s\<close> is the serialisation of
  \<^verbatim>\<open>new URL(s)\<close>, \<open>None\<close> when the constructor throws, and then \<open>urlError s\<close> is
  what it throws; \<open>withParams h kvs\<close> is a parsed URL after
  \<^verbatim>\<open>searchParams.append\<close> of each pair; \<open>errorStack m\<close> is the stack of
  \<^verbatim>\<open>new Error(m)\<close>; \<open>fetch\<close> is the network call.
\<close>

record env =
  newURL :: "string \<Rightarrow> string option"
  urlError :: "string \<Rightarrow> exn"
  withParams :: "string \<Rightarrow> (string \<times> string) list \<Rightarrow> string"
  errorStack :: "string \<Rightarrow> string"
  fetch :: "string \<Rightarrow> fetchOptions \<Rightarrow> exn + response"

definition newError :: "env \<Rightarrow> string \<Rightarrow> exn" where
  "newError e m = Exn m (errorStack e m)"

text \<open>
  What the handler leaves on the response object (\<open>statusCode\<close> is \<open>None\<close> while
  it has not assigned one) and what it returns.
\<close>

record res =
  statusCode :: "nat option"
  headersSet :: headers

datatype payload =
    EmptyResponse nat
  | Value jsval
  | Bytes string
  | SendProxy string headers
  | ProxyRequest string headers

section \<open>The handler, stage by stage\<close>

subsection \<open>Helpers of the source\<close>

definition hasProtocol :: "string \<Rightarrow> bool" where
  "hasProtocol url = (startsWith url ''http://'' \<or> startsWith url ''https://'')"

definition ensureValidUrl :: "string \<Rightarrow> string" where
  "ensureValidUrl url =
     collapseSlashes (if \<not> hasProtocol url then ''http://'' @ url else url)"

definition setCorsHeaders :: headers where
  "setCorsHeaders =
     [(''Access-Control-Allow-Origin'', ''*''),
      (''Access-Control-Allow-Methods'', ''GET, POST, PUT, DELETE, OPTIONS, PATCH''),
      (''Access-Control-Allow-Headers'', ''Content-Type, Authorization, X-Requested-With, Accept''),
      (''Access-Control-Allow-Credentials'', ''true'')]"

text \<open>\<^verbatim>\<open>requestHeaders.name\<close>, and the test \<^verbatim>\<open>if (requestHeaders.name)\<close>.\<close>

definition header :: "headers \<Rightarrow> string \<Rightarrow> string option" where
  "header h k = map_of h k"

definition present :: "string option \<Rightarrow> bool" where
  "present v = (case v of None \<Rightarrow> False | Some s \<Rightarrow> s \<noteq> [])"

text \<open>\<^verbatim>\<open>base.startsWith("http") ? base : `http://${base}`\<close>, and the stricter variant.\<close>

definition baseWithHttp :: "string \<Rightarrow> string" where
  "baseWithHttp base = (if startsWith base ''http'' then base else ''http://'' @ base)"

definition baseWithProtocol :: "string \<Rightarrow> string" where
  "baseWithProtocol base = (if hasProtocol base then base else ''http://'' @ base)"

subsection \<open>Path, method and auth endpoints\<close>

definition pathString :: "string list \<Rightarrow> string" where
  "pathString pa =
     (let p = join ''/'' pa
      in if startsWith p ''api/proxy/'' then drop 10 p
         else if startsWith p ''proxy/'' then drop 6 p
         else p)"

definition forcedMethod :: "string \<Rightarrow> string list \<Rightarrow> string" where
  "forcedMethod method pa =
     (if includesStr (join ''/'' pa) ''friends/add'' then ''POST'' else method)"

definition isAuthEndpoint :: "string \<Rightarrow> bool" where
  "isAuthEndpoint p =
     (p = ''auth/login'' \<or> p = ''login'' \<or> p = ''auth/register'' \<or> p = ''register'')"

subsection \<open>Which backend\<close>

text \<open>
  The source assigns one of the five configured constants to \<^verbatim>\<open>baseUrl\<close>;
  \<open>svc\<close> records which one.
\<close>

datatype service = General | Group | Notification | File | Presence

record route =
  svc :: service
  baseUrl :: string
  isFileRequest :: bool

definition messageRule :: "string \<Rightarrow> bool" where
  "messageRule p =
     (startsWith p ''message'' \<or> includesStr p ''/message'' \<or>
      startsWith p ''groups/messages'' \<or>
      (startsWith p ''group/'' \<and> includesStr p ''/messages''))"

definition selectRoute :: "config \<Rightarrow> string \<Rightarrow> query \<Rightarrow> route" where
  "selectRoute cfg p q =
     (let r0 = \<lparr> svc = General, baseUrl = API_BASE_URL cfg, isFileRequest = False \<rparr>;
          r1 = (if messageRule p
                then r0 \<lparr> svc := Group, baseUrl := GROUP_API_BASE_URL cfg \<rparr>
                else r0)
      in if startsWith p ''notifications''
         then r1 \<lparr> svc := Notification, baseUrl := NOTIFICATION_API_BASE_URL cfg \<rparr>
         else if startsWith p ''presence''
         then (let r2 = r1 \<lparr> svc := Presence, baseUrl := PRESENCE_SERVICE_BASE_URL cfg \<rparr>
               in if startsWith p ''presence/users'' \<and> q \<noteq> [] \<and>
                     qTruthy (map_of q ''user_ids'') \<and> \<not> hasProtocol (baseUrl r2)
                  then r2 \<lparr> baseUrl := ''http://'' @ baseUrl r2 \<rparr>
                  else r2)
         else if (startsWith p ''groups'' \<or> startsWith p ''group'') \<and>
                 \<not> includesStr p ''message''
         then r1 \<lparr> svc := Group, baseUrl := ensureValidUrl (GROUP_API_BASE_URL cfg) \<rparr>
         else if startsWith p ''files'' \<or> startsWith p ''media''
         then r1 \<lparr> svc := File, baseUrl := FILE_SERVICE_BASE_URL cfg, isFileRequest := True \<rparr>
         else r1)"

subsection \<open>Cookies\<close>

text \<open>
  \<^verbatim>\<open>cookieStr.split(";").reduce(...)\<close>: each piece is trimmed and split at
  \<^verbatim>\<open>=\<close>; the first part is the key, the second (if any) the value, and a later
  piece overwrites an earlier one with the same key.
\<close>

definition cookiePair :: "string \<Rightarrow> string \<times> string option" where
  "cookiePair cookie =
     (case split CHR ''='' (trim cookie) of
        [] \<Rightarrow> ([], None)
      | [k] \<Rightarrow> (k, None)
      | k # v # rest \<Rightarrow> (k, Some v))"

definition parseCookies :: "string \<Rightarrow> string \<Rightarrow> string option" where
  "parseCookies cookieStr k =
     (case map_of (rev (map cookiePair (split CHR '';'' cookieStr))) k of
        None \<Rightarrow> None
      | Some v \<Rightarrow> v)"

text \<open>
  \<^verbatim>\<open>cookies.auth_token\<close> of a non-empty \<^verbatim>\<open>cookie\<close> header, when it is a
  non-empty string (the source tests it with \<^verbatim>\<open>if\<close>).
\<close>

definition cookieAuthToken :: "headers \<Rightarrow> string option" where
  "cookieAuthToken h =
     (case header h ''cookie'' of
        None \<Rightarrow> None
      | Some c \<Rightarrow>
          if c = [] then None
          else (case parseCookies c ''auth_token'' of
                  None \<Rightarrow> None
                | Some t \<Rightarrow> if t = [] then None else Some t))"

subsection \<open>WebSocket requests\<close>

definition isWebSocketRequest :: "headers \<Rightarrow> bool" where
  "isWebSocketRequest h =
     ((case header h ''connection'' of
         None \<Rightarrow> False
       | Some c \<Rightarrow> includesStr (toLowerCase c) ''upgrade'') \<and>
      (case header h ''upgrade'' of
         None \<Rightarrow> False
       | Some u \<Rightarrow> toLowerCase u = ''websocket''))"

definition wsTarget :: "config \<Rightarrow> string \<Rightarrow> string" where
  "wsTarget cfg p =
     (if startsWith p ''messages/ws''
      then replaceHttpWs (GROUP_API_BASE_URL cfg) @ ''/messages/ws''
      else if startsWith p ''presence/ws''
      then replaceHttpWs (PRESENCE_SERVICE_BASE_URL cfg) @ ''/presence/ws''
      else [])"

text \<open>The token of the upgrade: the query's, else the cookie's.\<close>

definition wsToken :: "query \<Rightarrow> headers \<Rightarrow> string option" where
  "wsToken q h =
     (case map_of q ''token'' of
        Some v \<Rightarrow> if qTruthy (Some v) then Some (qString v) else cookieAuthToken h
      | None \<Rightarrow> cookieAuthToken h)"

definition optionalHeader :: "string \<Rightarrow> string option \<Rightarrow> headers" where
  "optionalHeader name v =
     (case v of None \<Rightarrow> [] | Some s \<Rightarrow> if s = [] then [] else [(name, s)])"

definition wsHeaders :: "query \<Rightarrow> headers \<Rightarrow> headers" where
  "wsHeaders q h =
     [(''Upgrade'', ''websocket''), (''Connection'', ''Upgrade'')] @
     optionalHeader ''Authorization'' (map_option (\<lambda>t. ''Bearer '' @ t) (wsToken q h)) @
     optionalHeader ''Origin'' (header h ''origin'') @
     optionalHeader ''Sec-WebSocket-Key'' (header h ''sec-websocket-key'') @
     optionalHeader ''Sec-WebSocket-Version'' (header h ''sec-websocket-version'') @
     optionalHeader ''Sec-WebSocket-Extensions'' (header h ''sec-websocket-extensions'')"

definition queryStrings :: "query \<Rightarrow> (string \<times> string) list" where
  "queryStrings q = map (\<lambda>(k, v). (k, qString v)) q"

text \<open>The \<^verbatim>\<open>{ wsUrl }\<close> answer for a path that mentions \<^verbatim>\<open>presence/ws\<close>.\<close>

definition presenceWsUrl :: "config \<Rightarrow> qval \<Rightarrow> string" where
  "presenceWsUrl cfg token =
     replaceFirst ''/api'' [] (replaceHttpWs (PRESENCE_SERVICE_BASE_URL cfg)) @
     ''/presence/ws?token='' @ qString token"

subsection \<open>The target URL\<close>

text \<open>
  \<^verbatim>\<open>parts[1]\<close> of \<^verbatim>\<open>pathString.split("/")\<close>, as the template prints it.
\<close>

definition messageId :: "string \<Rightarrow> string" where
  "messageId p =
     (case split CHR ''/'' p of
        a # b # rest \<Rightarrow> b
      | _ \<Rightarrow> ''undefined'')"

text \<open>
  The IDs of a comma-separated \<^verbatim>\<open>user_ids\<close>, each trimmed and encoded on its
  own. A list value has no \<^verbatim>\<open>split\<close>: the \<^verbatim>\<open>try\<close> block throws.
\<close>

definition encodedIds :: "qval \<Rightarrow> string option" where
  "encodedIds v =
     (case v of
        QStr s \<Rightarrow> Some (join '','' (map (\<lambda>id. encodeURIComponent (trim id)) (split CHR '','' s)))
      | QList xs \<Rightarrow> None)"

definition presenceUsersUrl :: "string \<Rightarrow> query \<Rightarrow> string" where
  "presenceUsersUrl base q =
     (let url = baseWithHttp base @ ''/presence/users''
      in case map_of q ''user_ids'' of
           None \<Rightarrow> url
         | Some v \<Rightarrow>
             if \<not> qTruthy (Some v) then url
             else if qIncludesComma v
             then (case encodedIds v of
                     Some ids \<Rightarrow> url @ ''?user_ids='' @ ids
                   | None \<Rightarrow> url @ ''?'' @ searchParamsToString [(''user_ids'', qString v)])
             else url @ ''?'' @ searchParamsToString [(''user_ids'', qString v)])"

definition fileServiceUrl :: "string \<Rightarrow> string \<Rightarrow> string" where
  "fileServiceUrl base p =
     (if startsWith p ''files/'' then base @ ''/api/files/'' @ drop 6 p
      else if startsWith p ''media/'' then base @ ''/api/media/'' @ drop 6 p
      else if p = ''files'' then base @ ''/api/files''
      else if p = ''media'' then base @ ''/api/media''
      else base @ ''/api/'' @ p)"

definition groupUrl :: "env \<Rightarrow> string \<Rightarrow> string \<Rightarrow> string" where
  "groupUrl e base p =
     (let url = baseWithProtocol base @ ''/'' @ p
      in case newURL e url of
           Some href \<Rightarrow> url
         | None \<Rightarrow> ensureValidUrl (baseWithProtocol base @ ''/'' @ p))"

definition isMessagePath :: "string \<Rightarrow> bool" where
  "isMessagePath p = (startsWith p ''messages/'' \<or> startsWith p ''message/'')"

definition buildUrl :: "env \<Rightarrow> string \<Rightarrow> string \<Rightarrow> query \<Rightarrow> route \<Rightarrow> string" where
  "buildUrl e method p q r =
     (let base = baseUrl r
      in if p = ''messages/history'' \<or> p = ''message/history''
         then baseWithHttp base @ ''/messages/history''
         else if startsWith p ''presence/users''
         then presenceUsersUrl base q
         else if startsWith p ''message/'' \<and> length (split CHR ''/'' p) = 2 \<and> method = ''GET''
         then baseWithHttp base @ ''/messages/'' @ messageId p
         else if isMessagePath p \<and> length (split CHR ''/'' p) \<ge> 2 \<and> method = ''DELETE''
         then baseWithHttp base @ ''/messages/'' @ messageId p
         else if isMessagePath p \<and> length (split CHR ''/'' p) \<ge> 2 \<and>
                 (method = ''PUT'' \<or> method = ''PATCH'')
         then baseWithHttp base @ ''/messages/'' @ messageId p
         else if (p = ''messages'' \<or> p = ''message'') \<and> method = ''POST''
         then baseWithHttp base @ ''/messages''
         else if isMessagePath p \<and>
                 (includesStr p ''/read'' \<or> includesStr p ''/search'' \<or>
                  includesStr p ''/unread-count'')
         then baseWithHttp base @ ''/'' @
                (if startsWith p ''message/'' then replaceFirst ''message/'' ''messages/'' p else p)
         else if startsWith p ''presence/''
         then baseWithHttp base @ ''/'' @ p
         else if isFileRequest r
         then fileServiceUrl base p
         else if startsWith p ''presence''
         then base @ ''/'' @ p
         else if startsWith p ''notifications''
         then base @ ''/'' @ p
         else if startsWith p ''groups'' \<or> startsWith p ''group''
         then groupUrl e base p
         else baseWithProtocol base @ ''/'' @ p)"

text \<open>The query is appended unless a special case has already put one.\<close>

definition appendQuery :: "string \<Rightarrow> query \<Rightarrow> string" where
  "appendQuery url q =
     (if includesStr url ''?'' then url
      else (let queryString = searchParamsToString (queryStrings q)
            in if queryString \<noteq> [] then url @ ''?'' @ queryString else url))"

text \<open>The extra validation of a path that mentions \<^verbatim>\<open>messages/history\<close>.\<close>

definition fixHistoryUrl :: "env \<Rightarrow> string \<Rightarrow> string \<Rightarrow> string" where
  "fixHistoryUrl e p url =
     (if includesStr p ''messages/history''
      then (case newURL e url of
              Some href \<Rightarrow> url
            | None \<Rightarrow> collapseSlashes (if \<not> hasProtocol url then ''http://'' @ url else url))
      else url)"

definition targetUrl :: "env \<Rightarrow> config \<Rightarrow> string \<Rightarrow> string \<Rightarrow> query \<Rightarrow> string" where
  "targetUrl e cfg method p q =
     fixHistoryUrl e p (appendQuery (buildUrl e method p q (selectRoute cfg p q)) q)"

subsection \<open>Credentials\<close>

definition bearer :: "string \<Rightarrow> string" where
  "bearer a = (if startsWith a ''Bearer '' then a else ''Bearer '' @ a)"

text \<open>\<^verbatim>\<open>headers["Authorization"]\<close> of the outbound \<^verbatim>\<open>fetch\<close>, when it is set.\<close>

definition authorization :: "headers \<Rightarrow> bool \<Rightarrow> string option" where
  "authorization h isAuth =
     (if present (header h ''authorization'')
      then map_option bearer (header h ''authorization'')
      else if present (header h ''cookie'') \<and> \<not> isAuth
      then map_option (\<lambda>t. ''Bearer '' @ t) (cookieAuthToken h)
      else None)"

text \<open>
  \<^verbatim>\<open>validateToken\<close> is then called on that token (not for an auth endpoint).
  Every way through it returns without throwing, and its result only chooses
  between two log lines, so it has no part in what the handler returns.
\<close>

definition fetchHeaders :: "headers \<Rightarrow> bool \<Rightarrow> headers" where
  "fetchHeaders h isAuth =
     [(''Content-Type'', ''application/json''), (''Accept'', ''application/json'')] @
     optionalHeader ''Authorization'' (authorization h isAuth)"

text \<open>
  The headers handed to \<^verbatim>\<open>sendProxy\<close> for a multipart upload: an
  \<^verbatim>\<open>Authorization\<close> found in three steps, then every inbound header but
  \<^verbatim>\<open>content-type\<close>, \<^verbatim>\<open>content-length\<close> and \<^verbatim>\<open>authorization\<close>.
\<close>

definition proxyAuthorization :: "headers \<Rightarrow> bool \<Rightarrow> string option" where
  "proxyAuthorization h isAuth =
     (if present (authorization h isAuth) then authorization h isAuth
      else if present (header h ''authorization'')
      then map_option bearer (header h ''authorization'')
      else if present (header h ''cookie'')
      then map_option (\<lambda>t. ''Bearer '' @ t) (cookieAuthToken h)
      else None)"

definition proxyHeaders :: "headers \<Rightarrow> bool \<Rightarrow> headers" where
  "proxyHeaders h isAuth =
     optionalHeader ''Authorization'' (proxyAuthorization h isAuth) @
     filter (\<lambda>(key, v). toLowerCase key \<noteq> ''content-type'' \<and>
                         toLowerCase key \<noteq> ''content-length'' \<and>
                         toLowerCase key \<noteq> ''authorization'') h"

subsection \<open>The request body\<close>

definition hasBody :: "string \<Rightarrow> bool" where
  "hasBody method = (method \<in> set [''POST'', ''PUT'', ''PATCH'', ''DELETE''])"

definition isMultipart :: "headers \<Rightarrow> bool" where
  "isMultipart h =
     (case header h ''content-type'' of
        None \<Rightarrow> False
      | Some ct \<Rightarrow> includesStr ct ''multipart/form-data'')"

text \<open>
  The typo warnings on \<^verbatim>\<open>body.email\<close> of an auth endpoint call
  \<^verbatim>\<open>includes\<close> and \<^verbatim>\<open>endsWith\<close> on it. A string has both; a list has only the
  first, so the second call throws unless the first test held; any other truthy
  value has neither.
\<close>

fun emailCheckThrows :: "jsval \<Rightarrow> bool" where
  "emailCheckThrows (JStr s) = False"
| "emailCheckThrows (JArr xs) = (JStr ''@gmail.coma'' \<notin> set xs)"
| "emailCheckThrows v = truthy v"

text \<open>
  The JSON branch: \<open>Inr None\<close> when there is no body to send, \<open>Inr (Some b)\<close>
  when \<open>b\<close> is serialised as the outbound body, \<open>Inl\<close> when anything in the
  \<^verbatim>\<open>try\<close> block threw.
\<close>

definition jsonBody :: "env \<Rightarrow> bool \<Rightarrow> exn + jsval \<Rightarrow> exn + jsval option" where
  "jsonBody e isAuth rb =
     (case rb of
        Inl ex \<Rightarrow> Inl (newError e ''Failed to process request body'')
      | Inr body \<Rightarrow>
          if body = JUndefined \<or> body = JNull then Inr None
          else if isAuth \<and> truthy (getProp body ''email'') \<and>
                  emailCheckThrows (getProp body ''email'')
          then Inl (newError e ''Failed to process request body'')
          else Inr (Some body))"

subsection \<open>Up to the network call\<close>

datatype action =
    Preflight
  | Return payload
  | Throw exn
  | Fetch string fetchOptions

definition checkedFetch :: "env \<Rightarrow> string \<Rightarrow> fetchOptions \<Rightarrow> action" where
  "checkedFetch e url options =
     (case newURL e url of
        None \<Rightarrow> Throw (newError e (''Cannot create a valid URL: '' @ url))
      | Some href \<Rightarrow> Fetch url options)"

definition webSocketProxy :: "env \<Rightarrow> string \<Rightarrow> query \<Rightarrow> headers \<Rightarrow> action" where
  "webSocketProxy e target q h =
     (case newURL e target of
        None \<Rightarrow> Throw (urlError e target)
      | Some href \<Rightarrow>
          Return (ProxyRequest (if q \<noteq> [] then withParams e href (queryStrings q) else href)
                               (wsHeaders q h)))"

definition presenceWs :: "env \<Rightarrow> config \<Rightarrow> query \<Rightarrow> action" where
  "presenceWs e cfg q =
     (case map_of q ''token'' of
        None \<Rightarrow> Throw (newError e ''No token provided for WebSocket connection'')
      | Some token \<Rightarrow>
          if \<not> qTruthy (Some token)
          then Throw (newError e ''No token provided for WebSocket connection'')
          else Return (Value (JObj [(''wsUrl'', JStr (presenceWsUrl cfg token))])))"

definition forward :: "env \<Rightarrow> config \<Rightarrow> request \<Rightarrow> string \<Rightarrow> action" where
  "forward e cfg req p =
     (let method = getMethod req;
          h = getRequestHeaders req;
          url = targetUrl e cfg method p (getQuery req);
          options = \<lparr> optMethod = forcedMethod method (pathArray req),
                      optHeaders = fetchHeaders h (isAuthEndpoint p),
                      credentials = ''include'',
                      optBody = None \<rparr>
      in if hasBody method
         then (if isMultipart h
               then (case newURL e url of
                       None \<Rightarrow> Throw (newError e ''Failed to proxy file upload'')
                     | Some href \<Rightarrow> Return (SendProxy href (proxyHeaders h (isAuthEndpoint p))))
               else (case jsonBody e (isAuthEndpoint p) (readBody req) of
                       Inl ex \<Rightarrow> Throw ex
                     | Inr b \<Rightarrow> checkedFetch e url (options \<lparr> optBody := b \<rparr>)))
         else checkedFetch e url options)"

definition prepareRequest :: "env \<Rightarrow> config \<Rightarrow> request \<Rightarrow> action" where
  "prepareRequest e cfg req =
     (if getMethod req = ''OPTIONS'' then Preflight
      else (let p = pathString (pathArray req);
                h = getRequestHeaders req;
                q = getQuery req
            in if isWebSocketRequest h \<and> wsTarget cfg p \<noteq> []
               then webSocketProxy e (wsTarget cfg p) q h
               else if includesStr p ''presence/ws''
               then presenceWs e cfg q
               else forward e cfg req p))"

subsection \<open>The backend's answer\<close>

fun showNat :: "nat \<Rightarrow> string" where
  "showNat n = (if n < 10 then [hexDigit n] else showNat (n div 10) @ [hexDigit (n mod 10)])"

declare showNat.simps [simp del]

text \<open>
  \<^verbatim>\<open>{ ...errorBody, status, statusText }\<close>: the own properties of the value, then
  the two fields, each overwriting a property of that name where it stands.
  A string never gets here.
\<close>

fun spread :: "jsval \<Rightarrow> (string \<times> jsval) list" where
  "spread (JObj kvs) = kvs"
| "spread (JArr xs) = zip (map showNat [0..<length xs]) xs"
| "spread v = []"

definition setProp :: "string \<Rightarrow> jsval \<Rightarrow> (string \<times> jsval) list \<Rightarrow> (string \<times> jsval) list" where
  "setProp k v kvs =
     (if k \<in> fst ` set kvs
      then map (\<lambda>(k', v'). if k' = k then (k', v) else (k', v')) kvs
      else kvs @ [(k, v)])"

definition isJson :: "response \<Rightarrow> bool" where
  "isJson r =
     (case header (respHeaders r) ''content-type'' of
        None \<Rightarrow> False
      | Some ct \<Rightarrow> ct \<noteq> [] \<and> includesStr ct ''application/json'')"

definition errorBody :: "response \<Rightarrow> jsval" where
  "errorBody r =
     (if isJson r
      then (case jsonResult r of None \<Rightarrow> JStr ''Error parsing response'' | Some v \<Rightarrow> v)
      else (case textResult r of None \<Rightarrow> JStr ''Error parsing response'' | Some t \<Rightarrow> JStr t))"

definition errorReply :: "response \<Rightarrow> jsval" where
  "errorReply r =
     (case errorBody r of
        JStr m \<Rightarrow>
          JObj [(''error'', JBool True), (''message'', JStr m),
                (''status'', JNum (int (status r))), (''statusText'', JStr (statusText r))]
      | v \<Rightarrow>
          JObj (setProp ''statusText'' (JStr (statusText r))
                 (setProp ''status'' (JNum (int (status r))) (spread v))))"

definition isFileDownload :: "route \<Rightarrow> string \<Rightarrow> string \<Rightarrow> response \<Rightarrow> bool" where
  "isFileDownload rt p method r =
     (isFileRequest rt \<and> includesStr p ''/files/'' \<and> method = ''GET'' \<and>
      present (header (respHeaders r) ''content-type'') \<and> \<not> isJson r)"

definition responseData :: "response \<Rightarrow> jsval" where
  "responseData r =
     (if isJson r
      then (case jsonResult r of
              None \<Rightarrow> JObj [(''error'', JStr ''Failed to parse response'')]
            | Some v \<Rightarrow> v)
      else (case textResult r of
              None \<Rightarrow> JObj [(''error'', JStr ''Failed to parse response'')]
            | Some t \<Rightarrow> JStr t))"

definition respond :: "config \<Rightarrow> request \<Rightarrow> res \<Rightarrow> response \<Rightarrow> res \<times> (exn + payload)" where
  "respond cfg req rs r =
     (let p = pathString (pathArray req)
      in if \<not> ok r
         then (rs \<lparr> statusCode := Some (status r) \<rparr>, Inr (Value (errorReply r)))
         else if isFileDownload (selectRoute cfg p (getQuery req)) p (getMethod req) r
         then (rs \<lparr> headersSet := headersSet rs @ respHeaders r \<rparr>,
               case arrayBufferResult r of
                 Inl ex \<Rightarrow> Inl ex
               | Inr bytes \<Rightarrow> Inr (Bytes bytes))
         else (rs, Inr (Value (responseData r))))"

subsection \<open>The handler\<close>

text \<open>The body of the outer \<^verbatim>\<open>try\<close>: the response object so far, and a result or a throw.\<close>

definition tryBody :: "env \<Rightarrow> config \<Rightarrow> request \<Rightarrow> res \<times> (exn + payload)" where
  "tryBody e cfg req =
     (let rs = \<lparr> statusCode = None, headersSet = setCorsHeaders \<rparr>
      in case prepareRequest e cfg req of
           Preflight \<Rightarrow>
             (rs \<lparr> headersSet := headersSet rs @ [(''Access-Control-Max-Age'', ''86400'')] \<rparr>,
              Inr (EmptyResponse 200))
         | Return pl \<Rightarrow> (rs, Inr pl)
         | Throw ex \<Rightarrow> (rs, Inl ex)
         | Fetch url options \<Rightarrow>
             (case fetch e url options of
                Inl ex \<Rightarrow> (rs, Inl ex)
              | Inr r \<Rightarrow> respond cfg req rs r))"

text \<open>The outer \<^verbatim>\<open>catch\<close>.\<close>

definition proxyError :: "config \<Rightarrow> exn \<Rightarrow> jsval" where
  "proxyError cfg ex =
     JObj [(''error'', JStr ''Proxy Error''),
           (''message'', JStr (message ex)),
           (''stack'', if NODE_ENV cfg = Some ''development'' then JStr (stack ex) else JUndefined)]"

definition handler :: "env \<Rightarrow> config \<Rightarrow> request \<Rightarrow> res \<times> payload" where
  "handler e cfg req =
     (case tryBody e cfg req of
        (rs, Inr pl) \<Rightarrow> (rs, pl)
      | (rs, Inl ex) \<Rightarrow> (rs, Value (proxyError cfg ex)))"

text \<open>
  The status the runtime sends for a returned value: the one the handler
  assigned, else the 200 a Node response object starts with.
\<close>

definition sentStatus :: "res \<Rightarrow> nat" where
  "sentStatus rs = (case statusCode rs of None \<Rightarrow> 200 | Some c \<Rightarrow> c)"

section \<open>What the specification measures\<close>

text \<open>
  Percent-decoding of one component, as the specification's round trip of
  \<^verbatim>\<open>user_ids\<close> asks for: \<^verbatim>\<open>%XX\<close> is one byte, a \<^verbatim>\<open>%\<close> without two
  hexadecimal digits is malformed.
\<close>

definition hexValue :: "char \<Rightarrow> nat option" where
  "hexValue c =
     (let n = of_char c :: nat
      in if 48 \<le> n \<and> n \<le> 57 then Some (n - 48)
         else if 65 \<le> n \<and> n \<le> 70 then Some (n - 55)
         else if 97 \<le> n \<and> n \<le> 102 then Some (n - 87)
         else None)"

fun percentDecode :: "string \<Rightarrow> string option" where
  "percentDecode [] = Some []"
| "percentDecode [c] = (if c = CHR ''%'' then None else Some [c])"
| "percentDecode [c, d] =
     (if c = CHR ''%'' then None else map_option ((#) c) (percentDecode [d]))"
| "percentDecode (c # d # e # rest) =
     (if c = CHR ''%''
      then (case (hexValue d, hexValue e) of
              (Some a, Some b) \<Rightarrow> map_option ((#) (char_of (16 * a + b))) (percentDecode rest)
            | _ \<Rightarrow> None)
      else map_option ((#) c) (percentDecode (d # e # rest)))"

text \<open>Splitting on literal commas and decoding each component on its own.\<close>

definition decodeIds :: "string \<Rightarrow> string option list" where
  "decodeIds s = map percentDecode (split CHR '','' s)"






section \<open>A runtime and requests for the examples\<close>

text \<open>
  A runtime whose URL parser accepts the strings that start with an http or
  WebSocket scheme and serialises them unchanged, and whose network call gives
  the same outcome for every request.
\<close>

definition sampleEnv :: "exn + response \<Rightarrow> env" where
  "sampleEnv outcome =
     \<lparr> newURL = (\<lambda>s. if hasProtocol s \<or> startsWith s ''ws://'' \<or> startsWith s ''wss://''
                       then Some s else None),
       urlError = (\<lambda>s. Exn ''Invalid URL'' ''TypeError: Invalid URL''),
       withParams = (\<lambda>href kvs. href @ ''?'' @ searchParamsToString kvs),
       errorStack = (\<lambda>m. ''Error: '' @ m),
       fetch = (\<lambda>url options. outcome) \<rparr>"

definition mkRequest :: "string \<Rightarrow> string list \<Rightarrow> query \<Rightarrow> headers \<Rightarrow> request" where
  "mkRequest method pa q h =
     \<lparr> getMethod = method, pathArray = pa, getQuery = q, getRequestHeaders = h,
       readBody = Inr JUndefined \<rparr>"

definition notFoundText :: string where
  "notFoundText =
     ''{'' @ [CHR 0x22] @ ''message'' @ [CHR 0x22] @ '':'' @ [CHR 0x22] @ ''not found'' @
     [CHR 0x22] @ ''}''"

definition notFound :: response where
  "notFound =
     \<lparr> status = 404, statusText = ''Not Found'',
       respHeaders = [(''content-type'', ''application/json'')],
       jsonResult = Some (JObj [(''message'', JStr ''not found'')]),
       textResult = Some notFoundText,
       arrayBufferResult = Inr notFoundText \<rparr>"


definition pngFile :: response where
  "pngFile =
     \<lparr> status = 200, statusText = ''OK'',
       respHeaders = [(''content-length'', ''4''), (''content-type'', ''image/png'')],
       jsonResult = None,
       textResult = Some [CHR 0xEF, CHR 0xBF, CHR 0xBD, CHR ''P'', CHR ''N'', CHR ''G''],
       arrayBufferResult = Inr [CHR 0x89, CHR ''P'', CHR ''N'', CHR ''G''] \<rparr>"

section \<open>Facts about the string functions\<close>




section \<open>Service selection\<close>




section \<open>Facts about the stages\<close>

lemma checkedFetch_cases:
  "checkedFetch e url options = Fetch u opts \<longleftrightarrow>
     newURL e url \<noteq> None \<and> u = url \<and> opts = options"
  "checkedFetch e url options \<noteq> Return pl"
  "checkedFetch e url options \<noteq> Preflight"
  by (auto simp: checkedFetch_def split: option.splits)

lemma forward_Fetch:
  assumes "forward e cfg req p = Fetch url options"
  shows "url = targetUrl e cfg (getMethod req) p (getQuery req)"
    and "newURL e url \<noteq> None"
    and "optHeaders options = fetchHeaders (getRequestHeaders req) (isAuthEndpoint p)"
    and "optMethod options = forcedMethod (getMethod req) (pathArray req)"
    and "hasBody (getMethod req) \<longrightarrow> \<not> isMultipart (getRequestHeaders req)"
  using assms
  by (auto simp: forward_def Let_def checkedFetch_cases split: if_splits option.splits sum.splits)

lemma forward_SendProxy:
  assumes "forward e cfg req p = Return (SendProxy href hs)"
  shows "newURL e (targetUrl e cfg (getMethod req) p (getQuery req)) = Some href"
    and "hs = proxyHeaders (getRequestHeaders req) (isAuthEndpoint p)"
    and "hasBody (getMethod req)" and "isMultipart (getRequestHeaders req)"
  using assms
  by (auto simp: forward_def Let_def checkedFetch_cases split: if_splits option.splits sum.splits)


lemma prepareRequest_Fetch:
  assumes "prepareRequest e cfg req = Fetch url options"
  shows "forward e cfg req (pathString (pathArray req)) = Fetch url options"
    and "getMethod req \<noteq> ''OPTIONS''"
  using assms
  by (auto simp: prepareRequest_def Let_def webSocketProxy_def presenceWs_def
      split: if_splits option.splits)

lemma prepareRequest_SendProxy:
  assumes "prepareRequest e cfg req = Return (SendProxy href hs)"
  shows "forward e cfg req (pathString (pathArray req)) = Return (SendProxy href hs)"
  using assms
  by (auto simp: prepareRequest_def Let_def webSocketProxy_def presenceWs_def
      split: if_splits option.splits)

lemma optionalHeader_Some:
  "s \<noteq> [] \<Longrightarrow> optionalHeader name (Some s) = [(name, s)]"
  by (simp add: optionalHeader_def)

lemma bearer_nonempty: "bearer a \<noteq> []"
  by (auto simp: bearer_def startsWith_def)

lemma authorization_header:
  assumes "header h ''authorization'' = Some a" and "a \<noteq> []"
  shows "authorization h isAuth = Some (bearer a)"
  using assms by (simp add: authorization_def present_def)

section \<open>Credentials\<close>

text \<open>
  C9 (as amended). On the two HTTP forwarding paths, the \<^verbatim>\<open>fetch\<close> call and
  the streamed multipart upload, a request with a non-empty inbound
  \<^verbatim>\<open>Authorization\<close> header goes out with that value, prefixed with
  \<^verbatim>\<open>Bearer \<close> when the prefix is absent and unchanged when it is there.
\<close>

theorem authorization_forwarded:
  assumes "header (getRequestHeaders req) ''authorization'' = Some a" and "a \<noteq> []"
  shows "(prepareRequest e cfg req = Fetch url options \<longrightarrow>
            map_of (optHeaders options) ''Authorization'' =
              Some (if startsWith a ''Bearer '' then a else ''Bearer '' @ a)) \<and>
         (prepareRequest e cfg req = Return (SendProxy href hs) \<longrightarrow>
            map_of hs ''Authorization'' =
              Some (if startsWith a ''Bearer '' then a else ''Bearer '' @ a))"
proof (intro conjI impI)
  let ?h = "getRequestHeaders req"
  let ?p = "pathString (pathArray req)"
  have au: "authorization ?h (isAuthEndpoint ?p) = Some (bearer a)"
    using assms by (rule authorization_header)
  {
    assume "prepareRequest e cfg req = Fetch url options"
    then have "optHeaders options = fetchHeaders ?h (isAuthEndpoint ?p)"
      using prepareRequest_Fetch(1) forward_Fetch(3) by blast
    then show "map_of (optHeaders options) ''Authorization'' =
        Some (if startsWith a ''Bearer '' then a else ''Bearer '' @ a)"
      by (simp add: fetchHeaders_def au optionalHeader_Some bearer_nonempty)
        (simp add: bearer_def)
  }
  {
    assume "prepareRequest e cfg req = Return (SendProxy href hs)"
    then have "hs = proxyHeaders ?h (isAuthEndpoint ?p)"
      using prepareRequest_SendProxy forward_SendProxy(2) by blast
    then show "map_of hs ''Authorization'' =
        Some (if startsWith a ''Bearer '' then a else ''Bearer '' @ a)"
      by (simp add: proxyHeaders_def proxyAuthorization_def au present_def
          optionalHeader_Some bearer_nonempty)
        (simp add: bearer_def)
  }
qed

theorem authorization_forwarded_witness:
  "map_of
     (optHeaders \<lparr> optMethod = ''GET'',
                   optHeaders = [(''Content-Type'', ''application/json''),
                                 (''Accept'', ''application/json''),
                                 (''Authorization'', ''Bearer abc.def.ghi'')],
                   credentials = ''include'', optBody = None \<rparr>)
     ''Authorization'' = Some ''Bearer abc.def.ghi'' \<and>
   map_of
     (optHeaders \<lparr> optMethod = ''GET'',
                   optHeaders = [(''Content-Type'', ''application/json''),
                                 (''Accept'', ''application/json''),
                                 (''Authorization'', ''Bearer xyz'')],
                   credentials = ''include'', optBody = None \<rparr>)
     ''Authorization'' = Some ''Bearer xyz''"
proof -
  let ?e = "sampleEnv (Inr notFound)"
  let ?r1 = "mkRequest ''GET'' [''users'', ''profile''] [] [(''authorization'', ''abc.def.ghi'')]"
  let ?r2 = "mkRequest ''GET'' [''users'', ''profile''] [] [(''authorization'', ''Bearer xyz'')]"
  have h1: "header (getRequestHeaders ?r1) ''authorization'' = Some ''abc.def.ghi''"
    by (simp add: mkRequest_def header_def)
  have h2: "header (getRequestHeaders ?r2) ''authorization'' = Some ''Bearer xyz''"
    by (simp add: mkRequest_def header_def)
  have p1: "prepareRequest ?e defaultConfig ?r1 =
      Fetch ''http://localhost:8081/api/users/profile''
        \<lparr> optMethod = ''GET'',
          optHeaders = [(''Content-Type'', ''application/json''),
                        (''Accept'', ''application/json''),
                        (''Authorization'', ''Bearer abc.def.ghi'')],
          credentials = ''include'', optBody = None \<rparr>"
    by code_simp
  have p2: "prepareRequest ?e defaultConfig ?r2 =
      Fetch ''http://localhost:8081/api/users/profile''
        \<lparr> optMethod = ''GET'',
          optHeaders = [(''Content-Type'', ''application/json''),
                        (''Accept'', ''application/json''),
                        (''Authorization'', ''Bearer xyz'')],
          credentials = ''include'', optBody = None \<rparr>"
    by code_simp
  have a1: "''abc.def.ghi'' \<noteq> []" and a2: "''Bearer xyz'' \<noteq> []"
    by simp_all
  show ?thesis
    using authorization_forwarded [OF h1 a1, THEN conjunct1, rule_format, OF p1]
      authorization_forwarded [OF h2 a2, THEN conjunct1, rule_format, OF p2]
    by (simp add: startsWith_def)
qed

text \<open>
  A WebSocket upgrade takes its \<^verbatim>\<open>Authorization\<close> from the \<^verbatim>\<open>token\<close> query
  parameter (or the cookie), whatever the inbound header says.
\<close>

theorem authorization_forwarded_counterexample:
  "header [(''connection'', ''Upgrade''), (''upgrade'', ''websocket''),
           (''authorization'', ''Bearer xyz'')] ''authorization'' = Some ''Bearer xyz'' \<and>
   prepareRequest (sampleEnv (Inr notFound)) defaultConfig
     (mkRequest ''GET'' [''messages'', ''ws''] [(''token'', QStr ''T'')]
        [(''connection'', ''Upgrade''), (''upgrade'', ''websocket''),
         (''authorization'', ''Bearer xyz'')]) =
   Return (ProxyRequest ''ws://localhost:8082/api/messages/ws?token=T''
     [(''Upgrade'', ''websocket''), (''Connection'', ''Upgrade''),
      (''Authorization'', ''Bearer T'')])"
  by code_simp

section \<open>The presence WebSocket address\<close>

text \<open>
  C10 (as amended). A request other than \<^verbatim>\<open>OPTIONS\<close> that is not a WebSocket
  upgrade and whose path contains \<^verbatim>\<open>presence/ws\<close>: with a non-empty \<^verbatim>\<open>token\<close>
  the handler returns \<^verbatim>\<open>{ wsUrl }\<close>, built from the presence base URL with a
  leading \<^verbatim>\<open>http\<close> rewritten to \<^verbatim>\<open>ws\<close> and the first \<^verbatim>\<open>/api\<close> removed, and
  makes no outbound call; without one it answers with the proxy-error object.
\<close>

theorem presence_ws_url:
  assumes "getMethod req \<noteq> ''OPTIONS''"
    and "\<not> isWebSocketRequest (getRequestHeaders req)"
    and "includesStr (pathString (pathArray req)) ''presence/ws''"
  shows "(map_of (getQuery req) ''token'' = Some t \<and> qTruthy (Some t) \<longrightarrow>
            prepareRequest e cfg req =
              Return (Value (JObj [(''wsUrl'',
                JStr (replaceFirst ''/api'' [] (replaceHttpWs (PRESENCE_SERVICE_BASE_URL cfg)) @
                      ''/presence/ws?token='' @ qString t))])) \<and>
            handler e cfg req =
              (\<lparr> statusCode = None, headersSet = setCorsHeaders \<rparr>,
               Value (JObj [(''wsUrl'',
                 JStr (replaceFirst ''/api'' [] (replaceHttpWs (PRESENCE_SERVICE_BASE_URL cfg)) @
                       ''/presence/ws?token='' @ qString t))]))) \<and>
         (\<not> qTruthy (map_of (getQuery req) ''token'') \<longrightarrow>
            prepareRequest e cfg req =
              Throw (newError e ''No token provided for WebSocket connection'') \<and>
            handler e cfg req =
              (\<lparr> statusCode = None, headersSet = setCorsHeaders \<rparr>,
               Value (JObj [(''error'', JStr ''Proxy Error''),
                            (''message'', JStr ''No token provided for WebSocket connection''),
                            (''stack'',
                             if NODE_ENV cfg = Some ''development''
                             then JStr (errorStack e ''No token provided for WebSocket connection'')
                             else JUndefined)])))"
proof -
  have pr: "prepareRequest e cfg req = presenceWs e cfg (getQuery req)"
    using assms by (simp add: prepareRequest_def Let_def)
  show ?thesis
    unfolding handler_def tryBody_def pr
    by (auto simp: presenceWs_def presenceWsUrl_def proxyError_def newError_def Let_def
        split: option.splits)
qed

theorem presence_ws_url_witness:
  "handler (sampleEnv (Inr notFound)) defaultConfig
     (mkRequest ''GET'' [''presence'', ''ws''] [(''token'', QStr ''T'')] []) =
   (\<lparr> statusCode = None, headersSet = setCorsHeaders \<rparr>,
    Value (JObj [(''wsUrl'', JStr ''ws://localhost:8085/presence/ws?token=T'')])) \<and>
   handler (sampleEnv (Inr notFound)) defaultConfig
     (mkRequest ''GET'' [''presence'', ''ws''] [] []) =
   (\<lparr> statusCode = None, headersSet = setCorsHeaders \<rparr>,
    Value (JObj [(''error'', JStr ''Proxy Error''),
                 (''message'', JStr ''No token provided for WebSocket connection''),
                 (''stack'', JUndefined)]))"
proof -
  let ?e = "sampleEnv (Inr notFound)"
  let ?r1 = "mkRequest ''GET'' [''presence'', ''ws''] [(''token'', QStr ''T'')] []"
  let ?r2 = "mkRequest ''GET'' [''presence'', ''ws''] [] []"
  have m: "getMethod ?r1 \<noteq> ''OPTIONS''" "getMethod ?r2 \<noteq> ''OPTIONS''"
    by (simp_all add: mkRequest_def)
  have w: "\<not> isWebSocketRequest (getRequestHeaders ?r1)"
    "\<not> isWebSocketRequest (getRequestHeaders ?r2)"
    by (simp_all add: mkRequest_def isWebSocketRequest_def header_def)
  have i: "includesStr (pathString (pathArray ?r1)) ''presence/ws''"
    "includesStr (pathString (pathArray ?r2)) ''presence/ws''"
    by (simp_all add: mkRequest_def pathString_def startsWith_def)
  have t1: "map_of (getQuery ?r1) ''token'' = Some (QStr ''T'') \<and> qTruthy (Some (QStr ''T''))"
    by (simp add: mkRequest_def qTruthy_def)
  have t2: "\<not> qTruthy (map_of (getQuery ?r2) ''token'')"
    by (simp add: mkRequest_def qTruthy_def)
  have u: "replaceFirst ''/api'' [] (replaceHttpWs (PRESENCE_SERVICE_BASE_URL defaultConfig)) =
      ''ws://localhost:8085''"
    by code_simp
  have n: "NODE_ENV defaultConfig = None"
    by (simp add: defaultConfig_def)
  show ?thesis
    using presence_ws_url [OF m(1) w(1) i(1), of "QStr ''T''" ?e defaultConfig,
        THEN conjunct1, rule_format, OF t1]
      presence_ws_url [OF m(2) w(2) i(2), of "QStr ''T''" ?e defaultConfig,
        THEN conjunct2, rule_format, OF t2]
    by (simp add: u n qString_def)
qed

text \<open>
  Three requests where the claim as written fails: a preflight, an empty token,
  and a base URL whose first \<^verbatim>\<open>/api\<close> is not its suffix.
\<close>

theorem presence_ws_url_counterexample:
  "handler (sampleEnv (Inr notFound)) defaultConfig
     (mkRequest ''OPTIONS'' [''presence'', ''ws''] [(''token'', QStr ''T'')] []) =
   (\<lparr> statusCode = None,
      headersSet = setCorsHeaders @ [(''Access-Control-Max-Age'', ''86400'')] \<rparr>,
    EmptyResponse 200) \<and>
   handler (sampleEnv (Inr notFound)) defaultConfig
     (mkRequest ''GET'' [''presence'', ''ws''] [(''token'', QStr [])] []) =
   (\<lparr> statusCode = None, headersSet = setCorsHeaders \<rparr>,
    Value (JObj [(''error'', JStr ''Proxy Error''),
                 (''message'', JStr ''No token provided for WebSocket connection''),
                 (''stack'', JUndefined)])) \<and>
   handler (sampleEnv (Inr notFound))
     (defaultConfig \<lparr> PRESENCE_SERVICE_BASE_URL := ''http://api.example.com/api'' \<rparr>)
     (mkRequest ''GET'' [''presence'', ''ws''] [(''token'', QStr ''T'')] []) =
   (\<lparr> statusCode = None, headersSet = setCorsHeaders \<rparr>,
    Value (JObj [(''wsUrl'', JStr ''ws:/.example.com/api/presence/ws?token=T'')]))"
  by code_simp

section \<open>Multipart uploads\<close>

lemma lower_Authorization: "toLowerCase ''Authorization'' = ''authorization''"
  by code_simp

lemma proxyHeaders_keys:
  assumes "(k, v) \<in> set (proxyHeaders h isAuth)"
  shows "toLowerCase k \<noteq> ''content-type''" and "toLowerCase k \<noteq> ''content-length''"
  using assms
  by (auto simp: proxyHeaders_def optionalHeader_def lower_Authorization
      split: option.splits if_splits)

lemma prepareRequest_forward:
  assumes "getMethod req \<noteq> ''OPTIONS''"
    and "\<not> (isWebSocketRequest (getRequestHeaders req) \<and>
            wsTarget cfg (pathString (pathArray req)) \<noteq> [])"
    and "\<not> includesStr (pathString (pathArray req)) ''presence/ws''"
  shows "prepareRequest e cfg req = forward e cfg req (pathString (pathArray req))"
  using assms by (auto simp: prepareRequest_def Let_def)

text \<open>
  C3 (as amended). A \<^verbatim>\<open>POST\<close>, \<^verbatim>\<open>PUT\<close>, \<^verbatim>\<open>PATCH\<close> or \<^verbatim>\<open>DELETE\<close> request
  with a multipart content type that reaches the forwarding stage is handed to
  \<^verbatim>\<open>sendProxy\<close> at the parsed target URL, or fails with
  \<^verbatim>\<open>Failed to proxy file upload\<close> when the URL does not parse. The headers handed
  over hold no \<^verbatim>\<open>content-type\<close> and no \<^verbatim>\<open>content-length\<close>, and the outcome
  does not depend on the body, which the handler never reads.
\<close>

theorem multipart_upload:
  assumes "getMethod req \<in> set [''POST'', ''PUT'', ''PATCH'', ''DELETE'']"
    and "isMultipart (getRequestHeaders req)"
    and "\<not> (isWebSocketRequest (getRequestHeaders req) \<and>
            wsTarget cfg (pathString (pathArray req)) \<noteq> [])"
    and "\<not> includesStr (pathString (pathArray req)) ''presence/ws''"
  shows "prepareRequest e cfg req =
           (case newURL e (targetUrl e cfg (getMethod req) (pathString (pathArray req))
                             (getQuery req)) of
              None \<Rightarrow> Throw (newError e ''Failed to proxy file upload'')
            | Some href \<Rightarrow>
                Return (SendProxy href
                  (proxyHeaders (getRequestHeaders req)
                     (isAuthEndpoint (pathString (pathArray req)))))) \<and>
         (\<forall>kv \<in> set (proxyHeaders (getRequestHeaders req)
                        (isAuthEndpoint (pathString (pathArray req)))).
            toLowerCase (fst kv) \<noteq> ''content-type'' \<and>
            toLowerCase (fst kv) \<noteq> ''content-length'') \<and>
         prepareRequest e cfg (req \<lparr> readBody := b \<rparr>) = prepareRequest e cfg req"
proof -
  have m: "getMethod req \<noteq> ''OPTIONS''"
    using assms(1) by auto
  have b: "hasBody (getMethod req)"
    using assms(1) by (simp add: hasBody_def)
  have f: "forward e cfg r (pathString (pathArray req)) =
      (case newURL e (targetUrl e cfg (getMethod req) (pathString (pathArray req))
                        (getQuery req)) of
         None \<Rightarrow> Throw (newError e ''Failed to proxy file upload'')
       | Some href \<Rightarrow>
           Return (SendProxy href
             (proxyHeaders (getRequestHeaders req)
                (isAuthEndpoint (pathString (pathArray req))))))"
    if "getMethod r = getMethod req" "getRequestHeaders r = getRequestHeaders req"
      "getQuery r = getQuery req" for r
    using that b assms(2) by (simp add: forward_def Let_def)
  have 1: "prepareRequest e cfg req = forward e cfg req (pathString (pathArray req))"
    using m assms(3,4) by (rule prepareRequest_forward)
  have 2: "prepareRequest e cfg (req \<lparr> readBody := b \<rparr>) =
      forward e cfg (req \<lparr> readBody := b \<rparr>) (pathString (pathArray req))"
    using m assms(3,4) prepareRequest_forward [of "req \<lparr> readBody := b \<rparr>" cfg e] by simp
  have 3: "\<forall>kv \<in> set (proxyHeaders (getRequestHeaders req)
                        (isAuthEndpoint (pathString (pathArray req)))).
            toLowerCase (fst kv) \<noteq> ''content-type'' \<and>
            toLowerCase (fst kv) \<noteq> ''content-length''"
    using proxyHeaders_keys by (metis prod.collapse)
  show ?thesis
    using 3 by (simp add: 1 2 f)
qed

theorem multipart_upload_witness:
  "prepareRequest (sampleEnv (Inr notFound)) defaultConfig
     (mkRequest ''POST'' [''files''] []
        [(''content-type'', ''multipart/form-data; boundary=X''),
         (''authorization'', ''Bearer xyz''), (''x-request-id'', ''7'')]) =
   Return (SendProxy ''http://localhost:8084/api/files''
     [(''Authorization'', ''Bearer xyz''), (''x-request-id'', ''7'')])"
proof -
  let ?e = "sampleEnv (Inr notFound)"
  let ?h = "[(''content-type'', ''multipart/form-data; boundary=X''),
             (''authorization'', ''Bearer xyz''), (''x-request-id'', ''7'')]"
  let ?r = "mkRequest ''POST'' [''files''] [] ?h"
  have a: "getMethod ?r \<in> set [''POST'', ''PUT'', ''PATCH'', ''DELETE'']"
    by (simp add: mkRequest_def)
  have b: "isMultipart (getRequestHeaders ?r)"
    by (simp add: mkRequest_def isMultipart_def header_def)
  have c: "\<not> (isWebSocketRequest (getRequestHeaders ?r) \<and>
              wsTarget defaultConfig (pathString (pathArray ?r)) \<noteq> [])"
    by (simp add: mkRequest_def isWebSocketRequest_def header_def)
  have d: "\<not> includesStr (pathString (pathArray ?r)) ''presence/ws''"
    by (simp add: mkRequest_def pathString_def startsWith_def)
  have u: "newURL ?e (targetUrl ?e defaultConfig (getMethod ?r) (pathString (pathArray ?r))
                       (getQuery ?r)) = Some ''http://localhost:8084/api/files''"
    by code_simp
  have p: "proxyHeaders (getRequestHeaders ?r) (isAuthEndpoint (pathString (pathArray ?r))) =
      [(''Authorization'', ''Bearer xyz''), (''x-request-id'', ''7'')]"
    by code_simp
  show ?thesis
    using multipart_upload [OF a b c d, of ?e "Inr JNull", THEN conjunct1]
    by (simp add: u p)
qed

text \<open>The multipart \<^verbatim>\<open>Content-Type\<close> of an upload to \<^verbatim>\<open>files\<close> is not passed on.\<close>

theorem multipart_upload_counterexample:
  "isMultipart [(''content-type'', ''multipart/form-data; boundary=X''),
                (''content-length'', ''1024'')] \<and>
   prepareRequest (sampleEnv (Inr notFound)) defaultConfig
     (mkRequest ''POST'' [''files''] []
        [(''content-type'', ''multipart/form-data; boundary=X''),
         (''content-length'', ''1024'')]) =
   Return (SendProxy ''http://localhost:8084/api/files'' [])"
  by code_simp

section \<open>Auth endpoints and the cookie token\<close>

text \<open>
  C4. A multipart \<^verbatim>\<open>POST\<close> to \<^verbatim>\<open>auth/login\<close> with no \<^verbatim>\<open>Authorization\<close>
  header and an \<^verbatim>\<open>auth_token\<close> cookie: the multipart branch has its own cookie
  fallback, without the auth-endpoint test of the main path, and attaches the
  cookie's token.
\<close>

theorem multipart_auth_cookie:
  "isAuthEndpoint ''auth/login'' \<and>
   prepareRequest (sampleEnv (Inr notFound)) defaultConfig
     (mkRequest ''POST'' [''auth'', ''login''] []
        [(''content-type'', ''multipart/form-data; boundary=x''),
         (''cookie'', ''auth_token=abc'')]) =
   Return (SendProxy ''http://localhost:8081/api/auth/login''
     [(''Authorization'', ''Bearer abc''), (''cookie'', ''auth_token=abc'')])"
  by code_simp

text \<open>The \<^verbatim>\<open>fetch\<close> path does keep the cookie token away from an auth endpoint.\<close>

lemma json_auth_cookie:
  assumes "isAuthEndpoint (pathString (pathArray req))"
    and "\<not> present (header (getRequestHeaders req) ''authorization'')"
    and "prepareRequest e cfg req = Fetch url options"
  shows "map_of (optHeaders options) ''Authorization'' = None"
proof -
  have "optHeaders options =
      fetchHeaders (getRequestHeaders req) (isAuthEndpoint (pathString (pathArray req)))"
    using assms(3) prepareRequest_Fetch(1) forward_Fetch(3) by blast
  then show ?thesis
    using assms(1,2) by (simp add: fetchHeaders_def authorization_def optionalHeader_def)
qed

section \<open>Normalising the backend's answer\<close>

lemma tryBody_Fetch:
  assumes "prepareRequest e cfg req = Fetch url options" and "fetch e url options = Inr r"
  shows "tryBody e cfg req =
           respond cfg req \<lparr> statusCode = None, headersSet = setCorsHeaders \<rparr> r"
  using assms by (simp add: tryBody_def)





section \<open>The outer catch\<close>

lemma respond_Inl:
  assumes "respond cfg req rs r = (rs', Inl ex)"
  shows "statusCode rs' = statusCode rs"
  using assms by (auto simp: respond_def Let_def split: if_splits sum.splits)

lemma tryBody_Inl:
  assumes "tryBody e cfg req = (rs, Inl ex)"
  shows "statusCode rs = None"
proof (cases "prepareRequest e cfg req")
  case (Fetch url options)
  show ?thesis
  proof (cases "fetch e url options")
    case (Inl a)
    with Fetch assms show ?thesis
      by (auto simp: tryBody_def)
  next
    case (Inr r)
    with Fetch assms respond_Inl [of cfg req _ r rs ex] show ?thesis
      by (auto simp: tryBody_def)
  qed
qed (use assms in \<open>auto simp: tryBody_def\<close>)

text \<open>
  C6 (as amended). An error thrown in the handler body (an invalid target URL,
  a failed network call, a failed read of the request body are three of the
  ways) is caught at the outer boundary and answered with
  \<^verbatim>\<open>{error: "Proxy Error", message, stack}\<close>, where \<^verbatim>\<open>stack\<close> is set only when
  \<^verbatim>\<open>NODE_ENV\<close> is \<^verbatim>\<open>development\<close>. No status code is assigned on this way out,
  so the reply leaves with the 200 of an untouched response.
\<close>

theorem outer_catch:
  "(tryBody e cfg req = (rs, Inl ex) \<longrightarrow>
      handler e cfg req =
        (rs, Value (JObj [(''error'', JStr ''Proxy Error''),
                          (''message'', JStr (message ex)),
                          (''stack'', if NODE_ENV cfg = Some ''development''
                                      then JStr (stack ex) else JUndefined)])) \<and>
      statusCode rs = None \<and> sentStatus rs = 200) \<and>
   (prepareRequest e cfg req = Fetch url options \<and> fetch e url options = Inl ex \<longrightarrow>
      tryBody e cfg req = (\<lparr> statusCode = None, headersSet = setCorsHeaders \<rparr>, Inl ex)) \<and>
   (prepareRequest e cfg req = forward e cfg req (pathString (pathArray req)) \<and>
    \<not> hasBody (getMethod req) \<and>
    newURL e (targetUrl e cfg (getMethod req) (pathString (pathArray req)) (getQuery req)) = None \<longrightarrow>
      tryBody e cfg req =
        (\<lparr> statusCode = None, headersSet = setCorsHeaders \<rparr>,
         Inl (newError e (''Cannot create a valid URL: '' @
                targetUrl e cfg (getMethod req) (pathString (pathArray req)) (getQuery req))))) \<and>
   (prepareRequest e cfg req = forward e cfg req (pathString (pathArray req)) \<and>
    hasBody (getMethod req) \<and> \<not> isMultipart (getRequestHeaders req) \<and>
    readBody req = Inl ex \<longrightarrow>
      tryBody e cfg req =
        (\<lparr> statusCode = None, headersSet = setCorsHeaders \<rparr>,
         Inl (newError e ''Failed to process request body'')))"
proof (intro conjI impI)
  assume a: "tryBody e cfg req = (rs, Inl ex)"
  show "handler e cfg req =
        (rs, Value (JObj [(''error'', JStr ''Proxy Error''),
                          (''message'', JStr (message ex)),
                          (''stack'', if NODE_ENV cfg = Some ''development''
                                      then JStr (stack ex) else JUndefined)]))"
    by (simp add: handler_def a proxyError_def)
  show "statusCode rs = None"
    using a by (rule tryBody_Inl)
  then show "sentStatus rs = 200"
    by (simp add: sentStatus_def)
next
  assume "prepareRequest e cfg req = Fetch url options \<and> fetch e url options = Inl ex"
  then show "tryBody e cfg req = (\<lparr> statusCode = None, headersSet = setCorsHeaders \<rparr>, Inl ex)"
    by (simp add: tryBody_def)
next
  assume "prepareRequest e cfg req = forward e cfg req (pathString (pathArray req)) \<and>
    \<not> hasBody (getMethod req) \<and>
    newURL e (targetUrl e cfg (getMethod req) (pathString (pathArray req)) (getQuery req)) = None"
  then show "tryBody e cfg req =
        (\<lparr> statusCode = None, headersSet = setCorsHeaders \<rparr>,
         Inl (newError e (''Cannot create a valid URL: '' @
                targetUrl e cfg (getMethod req) (pathString (pathArray req)) (getQuery req))))"
    by (simp add: tryBody_def forward_def checkedFetch_def Let_def)
next
  assume "prepareRequest e cfg req = forward e cfg req (pathString (pathArray req)) \<and>
    hasBody (getMethod req) \<and> \<not> isMultipart (getRequestHeaders req) \<and>
    readBody req = Inl ex"
  then show "tryBody e cfg req =
        (\<lparr> statusCode = None, headersSet = setCorsHeaders \<rparr>,
         Inl (newError e ''Failed to process request body''))"
    by (simp add: tryBody_def forward_def jsonBody_def Let_def)
qed

theorem outer_catch_witness:
  "handler (sampleEnv (Inl (Exn ''fetch failed'' ''TypeError: fetch failed'')))
     (defaultConfig \<lparr> NODE_ENV := Some ''development'' \<rparr>)
     (mkRequest ''GET'' [''users''] [] []) =
   (\<lparr> statusCode = None, headersSet = setCorsHeaders \<rparr>,
    Value (JObj [(''error'', JStr ''Proxy Error''), (''message'', JStr ''fetch failed''),
                 (''stack'', JStr ''TypeError: fetch failed'')]))"
proof -
  let ?x = "Exn ''fetch failed'' ''TypeError: fetch failed''"
  let ?e = "sampleEnv (Inl ?x)"
  let ?c = "defaultConfig \<lparr> NODE_ENV := Some ''development'' \<rparr>"
  let ?r = "mkRequest ''GET'' [''users''] [] []"
  let ?o = "\<lparr> optMethod = ''GET'',
              optHeaders = [(''Content-Type'', ''application/json''),
                            (''Accept'', ''application/json'')],
              credentials = ''include'', optBody = None \<rparr>"
  have p: "prepareRequest ?e ?c ?r = Fetch ''http://localhost:8081/api/users'' ?o \<and>
      fetch ?e ''http://localhost:8081/api/users'' ?o = Inl ?x"
    by code_simp
  have t: "tryBody ?e ?c ?r = (\<lparr> statusCode = None, headersSet = setCorsHeaders \<rparr>, Inl ?x)"
    using outer_catch [THEN conjunct2, THEN conjunct1, rule_format, OF p] .
  show ?thesis
    using outer_catch [THEN conjunct1, rule_format, OF t, THEN conjunct1]
    by (simp add: defaultConfig_def)
qed

text \<open>A failed network call in the default configuration: the reply leaves with status 200.\<close>

theorem outer_catch_counterexample:
  "handler (sampleEnv (Inl (Exn ''fetch failed'' ''TypeError: fetch failed''))) defaultConfig
     (mkRequest ''GET'' [''users''] [] []) =
   (\<lparr> statusCode = None, headersSet = setCorsHeaders \<rparr>,
    Value (JObj [(''error'', JStr ''Proxy Error''), (''message'', JStr ''fetch failed''),
                 (''stack'', JUndefined)])) \<and>
   sentStatus (fst (handler (sampleEnv (Inl (Exn ''fetch failed'' ''TypeError: fetch failed'')))
                      defaultConfig (mkRequest ''GET'' [''users''] [] []))) = 200"
  by code_simp

section \<open>File downloads\<close>

lemma isFileRequest_svc: "isFileRequest (selectRoute cfg p q) \<longleftrightarrow> svc (selectRoute cfg p q) = File"
  by (simp add: selectRoute_def Let_def)

text \<open>
  The branch commented "Special handling for file downloads": when its test
  holds, the raw bytes are returned and every header of the backend response
  is set on the reply.
\<close>

lemma download_branch:
  assumes "prepareRequest e cfg req = Fetch url options"
    and "fetch e url options = Inr r"
    and "ok r"
    and "getMethod req = ''GET''"
    and "svc (selectRoute cfg (pathString (pathArray req)) (getQuery req)) = File"
    and "includesStr (pathString (pathArray req)) ''/files/''"
    and "header (respHeaders r) ''content-type'' = Some ct"
    and "ct \<noteq> []"
    and "\<not> includesStr ct ''application/json''"
    and "arrayBufferResult r = Inr bytes"
  shows "handler e cfg req =
           (\<lparr> statusCode = None, headersSet = setCorsHeaders @ respHeaders r \<rparr>, Bytes bytes)"
proof -
  have j: "\<not> isJson r"
    using assms(7,9) by (simp add: isJson_def)
  have d: "isFileDownload (selectRoute cfg (pathString (pathArray req)) (getQuery req))
             (pathString (pathArray req)) (getMethod req) r"
    using assms(4-8) j by (simp add: isFileDownload_def isFileRequest_svc present_def)
  show ?thesis
    using assms(3,10) d
    by (simp add: handler_def tryBody_Fetch [OF assms(1,2)] respond_def Let_def)
qed

text \<open>
  C7. The test of that branch asks for \<^verbatim>\<open>/files/\<close> inside the path, and a
  path never starts with a slash: for \<^verbatim>\<open>GET files/a.png\<close>, routed to the File
  service, fetched from \<^verbatim>\<open>/api/files/a.png\<close> and answered with
  \<^verbatim>\<open>image/png\<close>, the test fails, the body is decoded as text (the first
  byte of the image is lost) and no backend header is copied. The bare
  \<^verbatim>\<open>files\<close> path and \<^verbatim>\<open>media/a.png\<close> fare the same.
\<close>

theorem file_download_text_decoded:
  "svc (selectRoute defaultConfig ''files/a.png'' []) = File \<and>
   \<not> includesStr ''files/a.png'' ''/files/'' \<and>
   prepareRequest (sampleEnv (Inr pngFile)) defaultConfig
     (mkRequest ''GET'' [''files'', ''a.png''] [] []) =
   Fetch ''http://localhost:8084/api/files/a.png''
     \<lparr> optMethod = ''GET'',
       optHeaders = [(''Content-Type'', ''application/json''), (''Accept'', ''application/json'')],
       credentials = ''include'', optBody = None \<rparr> \<and>
   arrayBufferResult pngFile = Inr [CHR 0x89, CHR ''P'', CHR ''N'', CHR ''G''] \<and>
   handler (sampleEnv (Inr pngFile)) defaultConfig
     (mkRequest ''GET'' [''files'', ''a.png''] [] []) =
   (\<lparr> statusCode = None, headersSet = setCorsHeaders \<rparr>,
    Value (JStr [CHR 0xEF, CHR 0xBF, CHR 0xBD, CHR ''P'', CHR ''N'', CHR ''G''])) \<and>
   svc (selectRoute defaultConfig ''files'' []) = File \<and>
   handler (sampleEnv (Inr pngFile)) defaultConfig (mkRequest ''GET'' [''files''] [] []) =
   (\<lparr> statusCode = None, headersSet = setCorsHeaders \<rparr>,
    Value (JStr [CHR 0xEF, CHR 0xBF, CHR 0xBD, CHR ''P'', CHR ''N'', CHR ''G''])) \<and>
   svc (selectRoute defaultConfig ''media/a.png'' []) = File \<and>
   handler (sampleEnv (Inr pngFile)) defaultConfig (mkRequest ''GET'' [''media'', ''a.png''] [] []) =
   (\<lparr> statusCode = None, headersSet = setCorsHeaders \<rparr>,
    Value (JStr [CHR 0xEF, CHR 0xBF, CHR 0xBD, CHR ''P'', CHR ''N'', CHR ''G'']))"
  by code_simp

section \<open>Percent-encoding round trip\<close>

lemma hex_digits:
  "\<forall>n \<in> set [0..<16]. hexValue (hexDigit n) = Some n \<and> hexDigit n \<noteq> CHR '','' \<and>
     hexDigit n \<noteq> CHR ''/''"
  by code_simp

lemma hexValue_hexDigit: "n < 16 \<Longrightarrow> hexValue (hexDigit n) = Some n"
  using hex_digits by simp

lemma hexDigit_plain: "n < 16 \<Longrightarrow> hexDigit n \<noteq> CHR '',''" "n < 16 \<Longrightarrow> hexDigit n \<noteq> CHR ''/''"
  using hex_digits by simp_all

lemma of_char_div_16: "(of_char c :: nat) div 16 < 16"
  by (rule less_mult_imp_div_less) simp

lemma percentDecode_plain:
  "c \<noteq> CHR ''%'' \<Longrightarrow> percentDecode (c # cs) = map_option ((#) c) (percentDecode cs)"
  by (cases "c # cs" rule: percentDecode.cases) auto

lemma percentDecode_pctByte:
  "percentDecode (pctByte c @ rest) = map_option ((#) c) (percentDecode rest)"
proof -
  have "16 * ((of_char c :: nat) div 16) + of_char c mod 16 = of_char c"
    by simp
  then show ?thesis
    by (simp add: pctByte_def Let_def hexValue_hexDigit of_char_div_16)
qed

lemma unreserved_not_special:
  "uriUnreserved c \<Longrightarrow> c \<noteq> CHR ''%'' \<and> c \<noteq> CHR '',''"
  by (auto simp: uriUnreserved_def isAlnum_def)

lemma percentDecode_encode: "percentDecode (encodeURIComponent s) = Some s"
proof (induction s)
  case Nil
  then show ?case
    by (simp add: encodeURIComponent_def)
next
  case (Cons c s)
  have ih: "percentDecode (concat (map (\<lambda>c. if uriUnreserved c then [c] else pctByte c) s)) = Some s"
    using Cons.IH by (simp add: encodeURIComponent_def)
  show ?case
  proof (cases "uriUnreserved c")
    case True
    then show ?thesis
      using ih unreserved_not_special [of c]
      by (simp add: encodeURIComponent_def percentDecode_plain)
  next
    case False
    then show ?thesis
      using ih by (simp add: encodeURIComponent_def percentDecode_pctByte)
  qed
qed

lemma encode_no_comma: "CHR '','' \<notin> set (encodeURIComponent s)"
proof -
  define f where "f = (\<lambda>c. if uriUnreserved c then [c] else pctByte c)"
  have "CHR '','' \<notin> set (f c)" for c
    using unreserved_not_special [of c] hexDigit_plain(1) [OF of_char_div_16, of c]
      hexDigit_plain(1) [of "(of_char c :: nat) mod 16"]
    by (auto simp: f_def pctByte_def Let_def)
  then have "CHR '','' \<notin> set (concat (map f s))"
    by auto
  then show ?thesis
    by (simp add: encodeURIComponent_def f_def)
qed

section \<open>Splitting and joining\<close>

lemma split_nonempty: "split sep s \<noteq> []"
  by (induction s) (auto split: list.splits)

lemma split_without: "sep \<notin> set x \<Longrightarrow> split sep x = [x]"
  by (induction x) auto

lemma split_at: "sep \<notin> set x \<Longrightarrow> split sep (x @ sep # ys) = x # split sep ys"
  by (induction x) (auto simp: split_nonempty split: list.splits)

lemma split_join:
  "xs \<noteq> [] \<Longrightarrow> \<forall>x \<in> set xs. sep \<notin> set x \<Longrightarrow> split sep (join [sep] xs) = xs"
proof (induction "[sep]" xs rule: join.induct)
  case 1
  then show ?case by simp
next
  case (2 x)
  then show ?case
    by (simp add: split_without)
next
  case (3 x y ys)
  then show ?case
    by (simp add: split_at)
qed

lemma includesStr_nonempty: "includesStr s (c # p) \<Longrightarrow> s \<noteq> []"
  by (cases s) auto

lemma includesStr_append: "includesStr b p \<Longrightarrow> includesStr (a @ b) p"
  by (induction a) auto

lemma decode_encoded_ids:
  "decodeIds (join '','' (map (\<lambda>id. encodeURIComponent (trim id)) (split CHR '','' v))) =
     map (\<lambda>id. Some (trim id)) (split CHR '','' v)"
proof -
  let ?ids = "map (\<lambda>id. encodeURIComponent (trim id)) (split CHR '','' v)"
  have "split CHR '','' (join '','' ?ids) = ?ids"
    by (rule split_join) (auto simp: split_nonempty encode_no_comma)
  then show ?thesis
    by (simp add: decodeIds_def percentDecode_encode comp_def)
qed

section \<open>The presence user list\<close>

lemma baseWithHttp_protocol: "baseWithHttp (baseWithProtocol b) = baseWithProtocol b"
  by (auto simp: baseWithHttp_def baseWithProtocol_def hasProtocol_def startsWith_def prefix_def)

lemma presence_users_route:
  assumes "map_of q ''user_ids'' = Some (QStr v)" and "v \<noteq> []"
  shows "baseUrl (selectRoute cfg ''presence/users'' q) =
           baseWithProtocol (PRESENCE_SERVICE_BASE_URL cfg)"
proof -
  have "q \<noteq> []"
    using assms(1) by auto
  then show ?thesis
    using assms
    by (simp add: selectRoute_def messageRule_def startsWith_def Let_def qTruthy_def
        baseWithProtocol_def)
qed

text \<open>
  C8. With a \<^verbatim>\<open>user_ids\<close> string that contains a comma, \<^verbatim>\<open>presence/users\<close>
  resolves to the presence base URL, the path, and \<^verbatim>\<open>?user_ids=\<close> followed by
  the IDs, each trimmed and percent-encoded on its own and joined with literal
  commas. Splitting that value at the commas and decoding each component gives
  the IDs back in order; for \<^verbatim>\<open>1,2,3\<close> that is the list of 1, 2 and 3.
\<close>

theorem user_ids_round_trip:
  assumes "map_of q ''user_ids'' = Some (QStr v)" and "includesStr v '',''"
  shows "targetUrl e cfg method ''presence/users'' q =
           baseWithProtocol (PRESENCE_SERVICE_BASE_URL cfg) @ ''/presence/users?user_ids='' @
           join '','' (map (\<lambda>id. encodeURIComponent (trim id)) (split CHR '','' v)) \<and>
         decodeIds (join '','' (map (\<lambda>id. encodeURIComponent (trim id)) (split CHR '','' v))) =
           map (\<lambda>id. Some (trim id)) (split CHR '','' v) \<and>
         (v = ''1,2,3'' \<longrightarrow>
            targetUrl e defaultConfig method ''presence/users'' q =
              ''http://localhost:8085/api/presence/users?user_ids=1,2,3'' \<and>
            decodeIds ''1,2,3'' = [Some ''1'', Some ''2'', Some ''3''])"
proof -
  let ?ids = "join '','' (map (\<lambda>id. encodeURIComponent (trim id)) (split CHR '','' v))"
  have v: "v \<noteq> []"
    using assms(2) by (rule includesStr_nonempty)
  have b: "buildUrl e method ''presence/users'' q (selectRoute c ''presence/users'' q) =
      baseWithProtocol (PRESENCE_SERVICE_BASE_URL c) @ ''/presence/users?user_ids='' @ ?ids" for c
    using assms v
    by (simp add: buildUrl_def Let_def startsWith_def presenceUsersUrl_def
        presence_users_route [OF assms(1) v] baseWithHttp_protocol qTruthy_def
        qIncludesComma_def encodedIds_def)
  have i: "includesStr (b0 @ ''/presence/users?user_ids='' @ ?ids) ''?''" for b0
    by (rule includesStr_append) simp
  have t: "targetUrl e c method ''presence/users'' q =
      baseWithProtocol (PRESENCE_SERVICE_BASE_URL c) @ ''/presence/users?user_ids='' @ ?ids" for c
    using i by (simp add: targetUrl_def b appendQuery_def fixHistoryUrl_def)
  have x: "join '','' (map (\<lambda>id. encodeURIComponent (trim id)) (split CHR '','' ''1,2,3'')) = ''1,2,3''"
    by code_simp
  have y: "decodeIds ''1,2,3'' = [Some ''1'', Some ''2'', Some ''3'']"
    by code_simp
  have z: "baseWithProtocol (PRESENCE_SERVICE_BASE_URL defaultConfig) = ''http://localhost:8085/api''"
    by code_simp
  show ?thesis
    using t [of cfg] t [of defaultConfig] decode_encoded_ids [of v] x y z by auto
qed

theorem user_ids_round_trip_witness:
  "targetUrl (sampleEnv (Inr notFound)) defaultConfig ''GET'' ''presence/users''
     [(''user_ids'', QStr ''1,2,3'')] =
     ''http://localhost:8085/api/presence/users?user_ids=1,2,3'' \<and>
   decodeIds ''1,2,3'' = [Some ''1'', Some ''2'', Some ''3'']"
proof -
  have a: "map_of [(''user_ids'', QStr ''1,2,3'')] ''user_ids'' = Some (QStr ''1,2,3'')"
    by simp
  have b: "includesStr ''1,2,3'' '',''"
    by simp
  show ?thesis
    using user_ids_round_trip [OF a b, of "sampleEnv (Inr notFound)" defaultConfig "''GET''",
        THEN conjunct2, THEN conjunct2]
    by simp
qed

section \<open>Duplicate slashes\<close>








































end
